theory Spec2Isabelle
  imports
    Complex_Main
    "HOL-Library.Multiset"
    "HOL-Library.Char_ord"
    "HOL-Library.List_Lexorder"
begin

section \<open>Python values, exceptions and effects\<close>

text \<open>
  The program is one Python script, \<^verbatim>\<open>app.py\<close>: it looks a deputy up by name
  (\<^verbatim>\<open>buscar_deputado_id\<close>), fetches every page of that deputy's expenses
  (\<^verbatim>\<open>buscar_todas_despesas\<close>), and groups, sums and sorts them with pandas
  before drawing a chart.

  The values the script handles are the ones \<^verbatim>\<open>response.json()\<close> produces:
  \<^verbatim>\<open>None\<close>, booleans, numbers, strings, lists and dictionaries with string keys.
  A dictionary is the list of its items in insertion order. Two idealisations:
  a number is its exact value (a rational; Python has \<^verbatim>\<open>int\<close> and
  \<^verbatim>\<open>float\<close>), and a string is a list of code points below 256, so that one
  \<^typ>\<open>char\<close> is one Python character (\<^verbatim>\<open>CHR 0xE1\<close> is the letter a with an
  acute accent) and the order of strings is Python's.
\<close>

datatype pyval =
    PNone
  | PBool bool
  | PNum rat
  | PStr string
  | PList "pyval list"
  | PDict "(string \<times> pyval) list"

text \<open>
  Exceptions are values. \<^verbatim>\<open>requests.exceptions.RequestException\<close> carries its
  message (\<^verbatim>\<open>str(e)\<close>, which the handlers print); the other classes are the ones
  that subscripting, iterating and \<^verbatim>\<open>pd.to_numeric\<close> raise.
\<close>

datatype pyexc =
    RequestException string
  | KeyError pyval
  | IndexError
  | TypeError
  | ValueError

text \<open>
  The two requests of the script, by what distinguishes them: the search by name
  (\<^verbatim>\<open>GET {API_URL}/deputados?nome=...\<close>) and one page of expenses
  (\<^verbatim>\<open>GET {API_URL}/deputados/{id}/despesas?pagina=...\<close>).
\<close>

datatype request =
    Deputados string
  | Despesas pyval nat

text \<open>
  The network is a parameter: \<open>env req\<close> is what the three calls
  \<^verbatim>\<open>requests.get(...)\<close>, \<^verbatim>\<open>response.raise_for_status()\<close> and
  \<^verbatim>\<open>response.json()\<close> give for the request, either the decoded body or the
  exception one of them raises.
\<close>

type_synonym upstream = "request \<Rightarrow> pyexc + pyval"

text \<open>
  What a run does besides returning is recorded in order: each request sent and each
  Streamlit element shown. \<open>StSuccess\<close> keeps the three values interpolated into
  the message, \<open>StPlotlyChart\<close> the value interpolated into the title and the
  table it plots, \<open>StDataframe\<close> the table it shows.
\<close>

datatype event =
    HttpGet request
  | StWarning string
  | StError string
  | StSuccess pyval pyval pyval
  | StInfo string
  | StPlotlyChart pyval "(string \<times> rat) list"
  | StSubheader string
  | StDataframe "(string \<times> rat) list"

subsection \<open>Truth value, subscripting, iteration\<close>

text \<open>\<^verbatim>\<open>if x:\<close> on a value.\<close>

fun truthy :: "pyval \<Rightarrow> bool" where
  "truthy PNone = False"
| "truthy (PBool b) = b"
| "truthy (PNum r) = (r \<noteq> 0)"
| "truthy (PStr s) = (s \<noteq> [])"
| "truthy (PList xs) = (xs \<noteq> [])"
| "truthy (PDict kvs) = (kvs \<noteq> [])"

text \<open>
  \<^verbatim>\<open>x['key']\<close> with a string key: a dictionary gives the value or raises
  \<^verbatim>\<open>KeyError\<close>; every other value raises \<^verbatim>\<open>TypeError\<close> (a list or a
  string wants an integer index, the rest cannot be subscripted).
\<close>

fun getitem :: "pyval \<Rightarrow> string \<Rightarrow> pyexc + pyval" where
  "getitem (PDict kvs) k =
     (case map_of kvs k of None \<Rightarrow> Inl (KeyError (PStr k)) | Some v \<Rightarrow> Inr v)"
| "getitem _ k = Inl TypeError"

text \<open>\<^verbatim>\<open>x[0]\<close>.\<close>

fun getitem0 :: "pyval \<Rightarrow> pyexc + pyval" where
  "getitem0 (PList []) = Inl IndexError"
| "getitem0 (PList (x # xs)) = Inr x"
| "getitem0 (PStr []) = Inl IndexError"
| "getitem0 (PStr (c # cs)) = Inr (PStr [c])"
| "getitem0 (PDict kvs) = Inl (KeyError (PNum 0))"
| "getitem0 _ = Inl TypeError"

text \<open>
  Iterating a value (\<^verbatim>\<open>for link in x\<close>, \<^verbatim>\<open>list.extend(x)\<close>): the elements
  of a list, the characters of a string, the keys of a dictionary;
  \<^verbatim>\<open>TypeError\<close> otherwise.
\<close>

fun py_iter :: "pyval \<Rightarrow> pyexc + pyval list" where
  "py_iter (PList xs) = Inr xs"
| "py_iter (PStr s) = Inr (map (\<lambda>c. PStr [c]) s)"
| "py_iter (PDict kvs) = Inr (map (\<lambda>kv. PStr (fst kv)) kvs)"
| "py_iter _ = Inl TypeError"

text \<open>Lists and dictionaries cannot be dictionary keys.\<close>

fun hashable :: "pyval \<Rightarrow> bool" where
  "hashable (PList xs) = False"
| "hashable (PDict kvs) = False"
| "hashable _ = True"

text \<open>\<^verbatim>\<open>f"{n}"\<close> for a non-negative integer: its decimal digits.\<close>

definition digit_char :: "nat \<Rightarrow> char" where
  "digit_char d = char_of (48 + d)"

function str_nat :: "nat \<Rightarrow> string" where
  "str_nat n = (if n < 10 then [digit_char n] else str_nat (n div 10) @ [digit_char (n mod 10)])"
  by pat_completeness auto
termination
  by (relation "measure (\<lambda>n. n)") auto

declare str_nat.simps [simp del]

section \<open>The resolver: \<^verbatim>\<open>buscar_deputado_id\<close>\<close>

text \<open>
  The body of the \<^verbatim>\<open>try\<close>: the request, then the first element of
  \<^verbatim>\<open>dados['dados']\<close> when that value is true, \<^verbatim>\<open>None\<close> otherwise.
\<close>

definition primeiro_resultado_info :: "pyval \<Rightarrow> pyexc + pyval" where
  "primeiro_resultado_info primeiro_resultado =
     (case getitem primeiro_resultado ''id'' of Inl ex \<Rightarrow> Inl ex | Inr i \<Rightarrow>
     (case getitem primeiro_resultado ''nome'' of Inl ex \<Rightarrow> Inl ex | Inr n \<Rightarrow>
     (case getitem primeiro_resultado ''siglaPartido'' of Inl ex \<Rightarrow> Inl ex | Inr p \<Rightarrow>
     (case getitem primeiro_resultado ''siglaUf'' of Inl ex \<Rightarrow> Inl ex | Inr u \<Rightarrow>
        Inr (PDict [(''id'', i), (''nome'', n), (''partido'', p), (''uf'', u)])))))"

definition buscar_deputado_try :: "upstream \<Rightarrow> string \<Rightarrow> pyexc + pyval" where
  "buscar_deputado_try env nome =
     (case env (Deputados nome) of Inl ex \<Rightarrow> Inl ex | Inr dados \<Rightarrow>
     (case getitem dados ''dados'' of Inl ex \<Rightarrow> Inl ex | Inr d \<Rightarrow>
        if truthy d then
          (case getitem0 d of Inl ex \<Rightarrow> Inl ex
           | Inr primeiro_resultado \<Rightarrow> primeiro_resultado_info primeiro_resultado)
        else Inr PNone))"

text \<open>
  The function: the handler catches \<^verbatim>\<open>RequestException\<close> only, shows
  \<^verbatim>\<open>st.error(f"Erro ao buscar deputado: {e}")\<close> and returns \<^verbatim>\<open>None\<close>;
  any other exception leaves the function. The result is the returned value or the
  exception that escapes, with the events of the call.
\<close>

definition buscar_deputado_id :: "upstream \<Rightarrow> string \<Rightarrow> (pyexc + pyval) \<times> event list" where
  "buscar_deputado_id env nome =
     (case buscar_deputado_try env nome of
        Inl (RequestException e) \<Rightarrow>
          (Inr PNone, [HttpGet (Deputados nome), StError (''Erro ao buscar deputado: '' @ e)])
      | Inl ex \<Rightarrow> (Inl ex, [HttpGet (Deputados nome)])
      | Inr v \<Rightarrow> (Inr v, [HttpGet (Deputados nome)]))"

section \<open>The paginated fetcher: \<^verbatim>\<open>buscar_todas_despesas\<close>\<close>

text \<open>
  \<^verbatim>\<open>{link['rel']: link['href'] for link in dados['links']}\<close>: for each link, the
  key, then the value, then the insertion, which raises \<^verbatim>\<open>TypeError\<close> on a key
  that cannot be hashed. The dictionary is kept as the list of the items inserted (in
  Python a later item replaces an earlier one with an equal key, which does not change
  which keys are present).
\<close>

fun links_dict :: "pyval list \<Rightarrow> (pyval \<times> pyval) list \<Rightarrow> pyexc + (pyval \<times> pyval) list" where
  "links_dict [] links = Inr links"
| "links_dict (link # rest) links =
     (case getitem link ''rel'' of Inl ex \<Rightarrow> Inl ex | Inr k \<Rightarrow>
     (case getitem link ''href'' of Inl ex \<Rightarrow> Inl ex | Inr v \<Rightarrow>
        if hashable k then links_dict rest (links @ [(k, v)]) else Inl TypeError))"

text \<open>
  One pass through the body of the \<^verbatim>\<open>try\<close> (lines 50 to 67). The list
  \<^verbatim>\<open>todas_despesas\<close> is extended in place, so the pass gives the list as it is
  when the pass ends, also when it ends in an exception, and then either that exception or
  whether the loop goes on (\<open>True\<close>: \<^verbatim>\<open>pagina += 1\<close>; \<open>False\<close>:
  \<^verbatim>\<open>break\<close>).
\<close>

definition despesas_try ::
  "upstream \<Rightarrow> pyval \<Rightarrow> nat \<Rightarrow> pyval list \<Rightarrow> pyval list \<times> (pyexc + bool)" where
  "despesas_try env deputado_id pagina todas_despesas =
     (case env (Despesas deputado_id pagina) of
        Inl ex \<Rightarrow> (todas_despesas, Inl ex)
      | Inr dados \<Rightarrow>
     (case getitem dados ''dados'' of
        Inl ex \<Rightarrow> (todas_despesas, Inl ex)
      | Inr d \<Rightarrow>
        if truthy d then
          (case py_iter d of
             Inl ex \<Rightarrow> (todas_despesas, Inl ex)
           | Inr items \<Rightarrow>
          (case getitem dados ''links'' of
             Inl ex \<Rightarrow> (todas_despesas @ items, Inl ex)
           | Inr ls \<Rightarrow>
          (case py_iter ls of
             Inl ex \<Rightarrow> (todas_despesas @ items, Inl ex)
           | Inr lks \<Rightarrow>
          (case links_dict lks [] of
             Inl ex \<Rightarrow> (todas_despesas @ items, Inl ex)
           | Inr links \<Rightarrow>
               if PStr ''next'' \<notin> fst ` set links
               then (todas_despesas @ items, Inr False)
               else (todas_despesas @ items, Inr True)))))
        else (todas_despesas, Inr False)))"

text \<open>
  The loop \<^verbatim>\<open>while True\<close>. It has no bound, so it is a partial function:
  \<open>None\<close> is a run that never returns. The handler catches
  \<^verbatim>\<open>RequestException\<close> only, shows with \<^verbatim>\<open>st.error\<close> the message
  \<open>erro_despesas pagina e\<close>, which names the page and the cause, and leaves the
  loop, after which the function returns the list; any other exception leaves the
  function.
\<close>

definition erro_despesas :: "nat \<Rightarrow> string \<Rightarrow> string" where
  "erro_despesas pagina e =
     ''Erro ao buscar despesas (p'' @ [CHR 0xE1] @ ''gina '' @ str_nat pagina @ ''): '' @ e"

definition despesas_except ::
  "pyval \<Rightarrow> nat \<Rightarrow> pyval list \<Rightarrow> event list \<Rightarrow> pyexc
     \<Rightarrow> (pyexc + pyval list) \<times> event list" where
  "despesas_except deputado_id pagina todas_despesas tr ex =
     (case ex of
        RequestException e \<Rightarrow>
          (Inr todas_despesas,
           tr @ [HttpGet (Despesas deputado_id pagina), StError (erro_despesas pagina e)])
      | _ \<Rightarrow> (Inl ex, tr @ [HttpGet (Despesas deputado_id pagina)]))"

partial_function (option) despesas_loop ::
  "upstream \<Rightarrow> pyval \<Rightarrow> nat \<Rightarrow> pyval list \<Rightarrow> event list
     \<Rightarrow> ((pyexc + pyval list) \<times> event list) option" where
  "despesas_loop env deputado_id pagina todas_despesas tr =
     (case despesas_try env deputado_id pagina todas_despesas of
        (todas, Inl ex) \<Rightarrow> Some (despesas_except deputado_id pagina todas tr ex)
      | (todas, Inr again) \<Rightarrow>
          if again
          then despesas_loop env deputado_id (pagina + 1) todas
                 (tr @ [HttpGet (Despesas deputado_id pagina)])
          else Some (Inr todas, tr @ [HttpGet (Despesas deputado_id pagina)]))"

definition buscar_todas_despesas ::
  "upstream \<Rightarrow> pyval \<Rightarrow> ((pyexc + pyval list) \<times> event list) option" where
  "buscar_todas_despesas env deputado_id = despesas_loop env deputado_id 1 [] []"

section \<open>The aggregation (lines 112 to 124)\<close>

text \<open>
  The script builds a pandas frame from the fetched list and uses two of its columns.
  A row of the frame is an expense record as the API documents it: a category
  (\<^verbatim>\<open>tipoDespesa\<close>, a string) and a net amount (\<^verbatim>\<open>valorLiquido\<close>), which
  upstream sends as a number or as a string.
\<close>

datatype amount = Number rat | Text string

record despesa =
  tipoDespesa :: string
  valorLiquido :: amount

text \<open>
  \<^verbatim>\<open>pd.to_numeric\<close> on one cell keeps a number and parses a string. Which strings
  pandas parses, and to what, is a parameter \<open>parse\<close> (\<open>None\<close>: the string cannot be
  parsed). On the column it raises \<^verbatim>\<open>ValueError\<close> at the first cell that cannot
  be parsed, so the column is converted whole or not at all. Amounts are exact
  rationals here; pandas computes with 64-bit floating point numbers, whose rounding is
  not modelled.
\<close>

definition coerce :: "(string \<Rightarrow> rat option) \<Rightarrow> amount \<Rightarrow> rat option" where
  "coerce parse a = (case a of Number r \<Rightarrow> Some r | Text s \<Rightarrow> parse s)"

fun to_numeric :: "(string \<Rightarrow> rat option) \<Rightarrow> amount list \<Rightarrow> pyexc + rat list" where
  "to_numeric parse [] = Inr []"
| "to_numeric parse (a # as) =
     (case coerce parse a of
        None \<Rightarrow> Inl ValueError
      | Some r \<Rightarrow> (case to_numeric parse as of Inl ex \<Rightarrow> Inl ex | Inr rs \<Rightarrow> Inr (r # rs)))"

text \<open>
  \<^verbatim>\<open>df.groupby('tipoDespesa')['valorLiquido'].sum().reset_index()\<close>: one row for each
  key that occurs, in ascending order of the keys (the default \<^verbatim>\<open>sort=True\<close>),
  with the sum of the amounts of that key.
\<close>

definition groupby_sum :: "(string \<times> rat) list \<Rightarrow> (string \<times> rat) list" where
  "groupby_sum df =
     map (\<lambda>c. (c, sum_list (map snd (filter (\<lambda>row. fst row = c) df))))
       (sort (remdups (map fst df)))"

text \<open>
  \<^verbatim>\<open>sort_values(by=..., ascending=False)\<close>: rows in descending order of the total.
  pandas reverses the rows, sorts ascending and reverses again; with a stable sort, as
  here, rows with equal totals keep their order. The default algorithm of pandas does
  not promise an order among equal totals.
\<close>

definition sort_values_desc :: "(string \<times> rat) list \<Rightarrow> (string \<times> rat) list" where
  "sort_values_desc df = rev (sort_key snd (rev df))"

text \<open>Lines 115 to 124 on the rows of the frame.\<close>

definition despesas_agrupadas ::
  "(string \<Rightarrow> rat option) \<Rightarrow> despesa list \<Rightarrow> pyexc + (string \<times> rat) list" where
  "despesas_agrupadas parse df =
     (case to_numeric parse (map valorLiquido df) of
        Inl ex \<Rightarrow> Inl ex
      | Inr vs \<Rightarrow> Inr (sort_values_desc (groupby_sum (zip (map tipoDespesa df) vs))))"

section \<open>The script (lines 84 to 143)\<close>

text \<open>
  A run of the script either finishes or ends in an exception that nothing caught.
\<close>

datatype run = Finished | Uncaught pyexc

text \<open>
  \<^verbatim>\<open>pd.DataFrame(lista_despesas)\<close>, as far as the two columns go. The frame is
  defined for lists of expense records: dictionaries with a string under
  \<^verbatim>\<open>tipoDespesa\<close> and a number or a string under \<^verbatim>\<open>valorLiquido\<close>. For any
  other list it is \<open>None\<close>: what pandas does with such a list is not modelled.
\<close>

definition despesa_of :: "pyval \<Rightarrow> despesa option" where
  "despesa_of rec =
     (case rec of
        PDict kvs \<Rightarrow>
          (case map_of kvs ''tipoDespesa'' of
             Some (PStr c) \<Rightarrow>
               (case map_of kvs ''valorLiquido'' of
                  Some (PNum v) \<Rightarrow> Some \<lparr>tipoDespesa = c, valorLiquido = Number v\<rparr>
                | Some (PStr s) \<Rightarrow> Some \<lparr>tipoDespesa = c, valorLiquido = Text s\<rparr>
                | _ \<Rightarrow> None)
           | _ \<Rightarrow> None)
      | _ \<Rightarrow> None)"

fun data_frame :: "pyval list \<Rightarrow> despesa list option" where
  "data_frame [] = Some []"
| "data_frame (rec # recs) =
     (case despesa_of rec of
        None \<Rightarrow> None
      | Some r \<Rightarrow> (case data_frame recs of None \<Rightarrow> None | Some rs \<Rightarrow> Some (r # rs)))"

text \<open>
  Lines 109 to 143: the message with the number of records, the aggregation, the chart
  and the table. There is no \<^verbatim>\<open>try\<close> around them.
\<close>

definition total_msg :: "nat \<Rightarrow> string" where
  "total_msg n = ''Total de '' @ str_nat n @ '' registros de despesa encontrados.''"

definition processar ::
  "(string \<Rightarrow> rat option) \<Rightarrow> pyval \<Rightarrow> nat \<Rightarrow> despesa list \<Rightarrow> run \<times> event list" where
  "processar parse nome_encontrado n df =
     (case despesas_agrupadas parse df of
        Inl ex \<Rightarrow> (Uncaught ex, [StInfo (total_msg n)])
      | Inr tab \<Rightarrow>
          (Finished,
           [StInfo (total_msg n), StPlotlyChart nome_encontrado tab,
            StSubheader ''Dados Agrupados'', StDataframe tab]))"

text \<open>
  Lines 95 to 97: the four fields read from the dictionary the resolver returned.
\<close>

definition encontrado :: "pyval \<Rightarrow> pyexc + pyval \<times> pyval \<times> pyval \<times> pyval" where
  "encontrado info_deputado =
     (case getitem info_deputado ''id'' of Inl ex \<Rightarrow> Inl ex | Inr i \<Rightarrow>
     (case getitem info_deputado ''nome'' of Inl ex \<Rightarrow> Inl ex | Inr n \<Rightarrow>
     (case getitem info_deputado ''partido'' of Inl ex \<Rightarrow> Inl ex | Inr p \<Rightarrow>
     (case getitem info_deputado ''uf'' of Inl ex \<Rightarrow> Inl ex | Inr u \<Rightarrow>
        Inr (i, n, p, u)))))"

text \<open>
  The run after the widgets are drawn: \<open>pesquisar\<close> is what
  \<^verbatim>\<open>st.button("Pesquisar Despesas")\<close> returns and \<open>nome_deputado\<close> the content of
  the text field. The result is \<open>None\<close> when the fetcher never returns or the fetched
  list has no frame in this model. The title, the spinners and the styling draw
  nothing the properties below speak of and are left out, and so is
  \<^verbatim>\<open>st.cache_data\<close>, which only saves repeating a call with the same argument.
\<close>

definition app ::
  "(string \<Rightarrow> rat option) \<Rightarrow> upstream \<Rightarrow> string \<Rightarrow> bool \<Rightarrow> (run \<times> event list) option" where
  "app parse env nome_deputado pesquisar =
     (if \<not> pesquisar then Some (Finished, [])
      else if nome_deputado = [] then
        Some (Finished, [StWarning ''Por favor, digite um nome para a busca.''])
      else
        (case buscar_deputado_id env nome_deputado of
           (Inl ex, tr1) \<Rightarrow> Some (Uncaught ex, tr1)
         | (Inr info_deputado, tr1) \<Rightarrow>
             if \<not> truthy info_deputado then
               Some (Finished,
                 tr1 @ [StError ''Nenhum deputado encontrado com esse nome. Tente novamente.''])
             else
               (case encontrado info_deputado of
                  Inl ex \<Rightarrow> Some (Uncaught ex, tr1)
                | Inr (id_encontrado, nome_encontrado, partido, uf) \<Rightarrow>
                    (case buscar_todas_despesas env id_encontrado of
                       None \<Rightarrow> None
                     | Some (Inl ex, tr2) \<Rightarrow>
                         Some (Uncaught ex, tr1 @ [StSuccess nome_encontrado partido uf] @ tr2)
                     | Some (Inr lista_despesas, tr2) \<Rightarrow>
                         if lista_despesas = [] then
                           Some (Finished,
                             tr1 @ [StSuccess nome_encontrado partido uf] @ tr2 @
                             [StInfo (''Este deputado n'' @ [CHR 0xE3] @
                                      ''o possui registros de despesas.'')])
                         else
                           (case data_frame lista_despesas of
                              None \<Rightarrow> None
                            | Some df \<Rightarrow>
                                (case processar parse nome_encontrado
                                        (length lista_despesas) df of
                                   (r, tr3) \<Rightarrow>
                                     Some (r, tr1 @ [StSuccess nome_encontrado partido uf]
                                              @ tr2 @ tr3)))))))"

section \<open>Vocabulary of the properties\<close>

text \<open>
  The shape of a response, as the API documents it: the array under \<^verbatim>\<open>dados\<close>
  and the array under \<^verbatim>\<open>links\<close>, when the response is a dictionary that has them.
\<close>

definition page_dados :: "pyval \<Rightarrow> pyval list option" where
  "page_dados j =
     (case j of
        PDict kvs \<Rightarrow> (case map_of kvs ''dados'' of Some (PList rs) \<Rightarrow> Some rs | _ \<Rightarrow> None)
      | _ \<Rightarrow> None)"

definition page_links :: "pyval \<Rightarrow> pyval list option" where
  "page_links j =
     (case j of
        PDict kvs \<Rightarrow> (case map_of kvs ''links'' of Some (PList ls) \<Rightarrow> Some ls | _ \<Rightarrow> None)
      | _ \<Rightarrow> None)"

text \<open>
  A link entry the comprehension accepts (a dictionary with a key \<^verbatim>\<open>rel\<close> that can
  be hashed and a key \<^verbatim>\<open>href\<close>), and a link with relation \<^verbatim>\<open>next\<close>.
\<close>

definition link_ok :: "pyval \<Rightarrow> bool" where
  "link_ok l =
     (case l of
        PDict kvs \<Rightarrow>
          (case map_of kvs ''rel'' of
             Some r \<Rightarrow> hashable r \<and> map_of kvs ''href'' \<noteq> None
           | None \<Rightarrow> False)
      | _ \<Rightarrow> False)"

definition is_next :: "pyval \<Rightarrow> bool" where
  "is_next l = (case l of PDict kvs \<Rightarrow> map_of kvs ''rel'' = Some (PStr ''next'') | _ \<Rightarrow> False)"

text \<open>
  A page after which there are more: records, and a link with relation \<^verbatim>\<open>next\<close>.
  A last page: no records, or records and no link with relation \<^verbatim>\<open>next\<close>.
\<close>

definition more_page :: "pyval \<Rightarrow> bool" where
  "more_page j =
     (case page_dados j of
        Some rs \<Rightarrow>
          rs \<noteq> [] \<and>
          (case page_links j of
             Some ls \<Rightarrow> list_all link_ok ls \<and> list_ex is_next ls
           | None \<Rightarrow> False)
      | None \<Rightarrow> False)"

definition last_page :: "pyval \<Rightarrow> bool" where
  "last_page j =
     (case page_dados j of
        Some rs \<Rightarrow>
          rs = [] \<or>
          (case page_links j of
             Some ls \<Rightarrow> list_all link_ok ls \<and> \<not> list_ex is_next ls
           | None \<Rightarrow> False)
      | None \<Rightarrow> False)"

text \<open>The records of a page, and the records that the request for page \<open>p\<close> gives.\<close>

definition page_records :: "pyval \<Rightarrow> pyval list" where
  "page_records j = (case page_dados j of Some rs \<Rightarrow> rs | None \<Rightarrow> [])"

definition fetched :: "upstream \<Rightarrow> pyval \<Rightarrow> nat \<Rightarrow> pyval list" where
  "fetched env deputado_id p =
     (case env (Despesas deputado_id p) of Inr j \<Rightarrow> page_records j | Inl ex \<Rightarrow> [])"

text \<open>
  A link entry without \<^verbatim>\<open>rel\<close> or without \<^verbatim>\<open>href\<close>; a response without
  \<^verbatim>\<open>links\<close>, or with such an entry among its links; and the exceptions that these
  responses raise, none of them a \<^verbatim>\<open>RequestException\<close>.
\<close>

definition link_defect :: "pyval \<Rightarrow> bool" where
  "link_defect l =
     (case l of
        PDict kvs \<Rightarrow> map_of kvs ''rel'' = None \<or> map_of kvs ''href'' = None
      | _ \<Rightarrow> False)"

definition links_defect :: "pyval \<Rightarrow> bool" where
  "links_defect j =
     (case j of
        PDict kvs \<Rightarrow>
          (case map_of kvs ''links'' of
             None \<Rightarrow> True
           | Some (PList ls) \<Rightarrow> list_ex link_defect ls
           | Some _ \<Rightarrow> False)
      | _ \<Rightarrow> False)"

definition escapes :: "pyexc \<Rightarrow> bool" where
  "escapes ex =
     (ex = KeyError (PStr ''links'') \<or> ex = KeyError (PStr ''rel'')
      \<or> ex = KeyError (PStr ''href'') \<or> ex = TypeError)"

text \<open>
  A row whose amount \<^verbatim>\<open>pd.to_numeric\<close> accepts, the number it becomes, and the
  frame after line 115.
\<close>

definition coercible :: "(string \<Rightarrow> rat option) \<Rightarrow> despesa \<Rightarrow> bool" where
  "coercible parse r = (coerce parse (valorLiquido r) \<noteq> None)"



section \<open>Example data\<close>

text \<open>
  A parser for plain decimal literals (digits, then optionally a point and more
  digits), for the examples. pandas reads these literals as the same numbers and
  accepts other forms besides; no theorem below depends on this parser except where it
  is named.
\<close>

definition digit_of :: "char \<Rightarrow> nat option" where
  "digit_of c =
     map_of [(CHR ''0'', 0), (CHR ''1'', 1), (CHR ''2'', 2), (CHR ''3'', 3), (CHR ''4'', 4),
             (CHR ''5'', 5), (CHR ''6'', 6), (CHR ''7'', 7), (CHR ''8'', 8), (CHR ''9'', 9)] c"

fun digits_value :: "string \<Rightarrow> nat \<Rightarrow> nat option" where
  "digits_value [] acc = Some acc"
| "digits_value (c # cs) acc =
     (case digit_of c of None \<Rightarrow> None | Some d \<Rightarrow> digits_value cs (10 * acc + d))"

definition parse_decimal :: "string \<Rightarrow> rat option" where
  "parse_decimal s =
     (let ip = takeWhile (\<lambda>c. c \<noteq> CHR ''.'') s; rest = dropWhile (\<lambda>c. c \<noteq> CHR ''.'') s in
      if ip = [] then None
      else (case digits_value ip 0 of
              None \<Rightarrow> None
            | Some i \<Rightarrow>
                (case rest of
                   [] \<Rightarrow> Some (of_nat i)
                 | dot # fp \<Rightarrow>
                     if fp = [] then None
                     else (case digits_value fp 0 of
                             None \<Rightarrow> None
                           | Some f \<Rightarrow> Some (of_nat i + of_nat f / 10 ^ length fp)))))"

text \<open>Names with accented letters, as code points.\<close>

definition combustivel :: string where
  "combustivel = ''Combust'' @ [CHR 0xED] @ ''vel''"


definition maria :: string where
  "maria = ''Maria do Ros'' @ [CHR 0xE1] @ ''rio''"

text \<open>An expense record, a link entry, and a page of \<open>n\<close> records with the given links.\<close>

definition despesa_exemplo :: pyval where
  "despesa_exemplo =
     PDict [(''tipoDespesa'', PStr ''COMBUSTIVEIS''), (''valorLiquido'', PNum 150)]"

definition link_exemplo :: "string \<Rightarrow> pyval" where
  "link_exemplo rel = PDict [(''rel'', PStr rel), (''href'', PStr ''https://example.org'')]"

definition pagina_exemplo :: "nat \<Rightarrow> string list \<Rightarrow> pyval" where
  "pagina_exemplo n rels =
     PDict [(''dados'', PList (replicate n despesa_exemplo)),
            (''links'', PList (map link_exemplo rels))]"

text \<open>
  Scenario A: the search finds one deputy. Scenario B: a page of 100 records with a
  next link, then a page of 37 without. Scenario C: three records in two categories,
  and the same records in another order. Scenario D: the request for page 3 of 5 fails.
\<close>

definition scenario_A :: pyval where
  "scenario_A =
     PDict [(''dados'',
        PList [PDict [(''id'', PNum 204379), (''uri'', PStr ''https://example.org''),
                      (''nome'', PStr maria), (''siglaPartido'', PStr ''PT''),
                      (''siglaUf'', PStr ''RS'')]]),
       (''links'', PList [link_exemplo ''self''])]"

definition busca_maria :: upstream where
  "busca_maria req = Inr scenario_A"

definition scenario_B :: upstream where
  "scenario_B req =
     (case req of
        Despesas i p \<Rightarrow>
          if p = 1 then Inr (pagina_exemplo 100 [''self'', ''next''])
          else if p = 2 then Inr (pagina_exemplo 37 [''self'', ''first''])
          else Inl (RequestException ''404 Client Error'')
      | Deputados nome \<Rightarrow> Inr (PDict [(''dados'', PList [])]))"



definition scenario_D :: upstream where
  "scenario_D req =
     (case req of
        Despesas i p \<Rightarrow>
          if p = 3 then Inl (RequestException ''Read timed out'')
          else if p = 5 then Inr (pagina_exemplo 1 [''self''])
          else Inr (pagina_exemplo 2 [''self'', ''next''])
      | Deputados nome \<Rightarrow> Inr (PDict [(''dados'', PList [])]))"

text \<open>
  An upstream with no results, one that cannot be reached, one whose second page has
  no \<^verbatim>\<open>links\<close>, and one with an amount that is not a number.
\<close>

definition busca_vazia :: upstream where
  "busca_vazia req = Inr (PDict [(''dados'', PList []), (''links'', PList [link_exemplo ''self''])])"

definition busca_falha :: upstream where
  "busca_falha req = Inl (RequestException ''Read timed out'')"

definition sem_links :: upstream where
  "sem_links req =
     (case req of
        Despesas i p \<Rightarrow>
          if p = 1 then Inr (pagina_exemplo 2 [''self'', ''next''])
          else Inr (PDict [(''dados'', PList [despesa_exemplo])])
      | Deputados nome \<Rightarrow> Inr (PDict [(''dados'', PList [])]))"

definition valor_invalido :: upstream where
  "valor_invalido req =
     (case req of
        Deputados nome \<Rightarrow> Inr scenario_A
      | Despesas i p \<Rightarrow>
          Inr (PDict [(''dados'',
                 PList [PDict [(''tipoDespesa'', PStr combustivel),
                               (''valorLiquido'', PStr ''150.00'')],
                        PDict [(''tipoDespesa'', PStr combustivel),
                               (''valorLiquido'', PStr ''abc'')]]),
               (''links'', PList [link_exemplo ''self''])]))"

section \<open>Properties of the fetcher\<close>

subsection \<open>One pass through the loop\<close>

lemma links_dict_ok:
  "list_all link_ok ls \<Longrightarrow>
   \<exists>links. links_dict ls acc = Inr links \<and>
     (PStr ''next'' \<in> fst ` set links \<longleftrightarrow> PStr ''next'' \<in> fst ` set acc \<or> list_ex is_next ls)"
proof (induction ls arbitrary: acc)
  case Nil
  then show ?case by simp
next
  case (Cons l ls)
  from Cons.prems have lk: "link_ok l" and rest: "list_all link_ok ls"
    by simp_all
  from lk obtain kvs r h where l: "l = PDict kvs" "map_of kvs ''rel'' = Some r"
    "hashable r" "map_of kvs ''href'' = Some h"
    by (auto simp: link_ok_def split: pyval.splits option.splits)
  from Cons.IH [OF rest, of "acc @ [(r, h)]"] obtain links where
    links: "links_dict ls (acc @ [(r, h)]) = Inr links"
    "PStr ''next'' \<in> fst ` set links \<longleftrightarrow>
       PStr ''next'' \<in> fst ` set (acc @ [(r, h)]) \<or> list_ex is_next ls"
    by blast
  have "is_next l \<longleftrightarrow> r = PStr ''next''"
    using l by (simp add: is_next_def)
  with l links show ?case by auto
qed

lemma try_more:
  assumes "env (Despesas i p) = Inr j" "more_page j"
  shows "despesas_try env i p acc = (acc @ page_records j, Inr True)"
proof -
  from assms(2) obtain kvs rs ls where j: "j = PDict kvs"
    "map_of kvs ''dados'' = Some (PList rs)" "rs \<noteq> []"
    "map_of kvs ''links'' = Some (PList ls)" "list_all link_ok ls" "list_ex is_next ls"
    by (auto simp: more_page_def page_dados_def page_links_def
        split: pyval.splits option.splits)
  from links_dict_ok [OF j(5), of "[]"] j(6) obtain links where
    "links_dict ls [] = Inr links" "PStr ''next'' \<in> fst ` set links"
    by auto
  with assms(1) j show ?thesis
    by (simp add: despesas_try_def page_records_def page_dados_def)
qed

lemma try_last:
  assumes "env (Despesas i p) = Inr j" "last_page j"
  shows "despesas_try env i p acc = (acc @ page_records j, Inr False)"
proof -
  from assms(2) obtain kvs ds where j: "j = PDict kvs" "map_of kvs ''dados'' = Some (PList ds)"
    by (auto simp: last_page_def page_dados_def split: pyval.splits option.splits)
  show ?thesis
  proof (cases ds)
    case Nil
    with assms(1) j show ?thesis
      by (simp add: despesas_try_def page_records_def page_dados_def)
  next
    case (Cons r rs)
    with assms(2) j obtain ls where ls: "map_of kvs ''links'' = Some (PList ls)"
      "list_all link_ok ls" "\<not> list_ex is_next ls"
      by (auto simp: last_page_def page_dados_def page_links_def
          split: pyval.splits option.splits)
    from links_dict_ok [OF ls(2), of "[]"] ls(3) obtain links where
      "links_dict ls [] = Inr links" "PStr ''next'' \<notin> fst ` set links"
      by auto
    with assms(1) j Cons ls show ?thesis
      by (simp add: despesas_try_def page_records_def page_dados_def)
  qed
qed

lemma try_fail:
  assumes "env (Despesas i p) = Inl ex"
  shows "despesas_try env i p acc = (acc, Inl ex)"
  using assms by (simp add: despesas_try_def)

lemma loop_more:
  assumes "env (Despesas i p) = Inr j" "more_page j"
  shows "despesas_loop env i p acc tr =
         despesas_loop env i (Suc p) (acc @ page_records j) (tr @ [HttpGet (Despesas i p)])"
  using try_more [of env i p j acc] assms by (subst despesas_loop.simps) simp

lemma loop_last:
  assumes "env (Despesas i p) = Inr j" "last_page j"
  shows "despesas_loop env i p acc tr =
         Some (Inr (acc @ page_records j), tr @ [HttpGet (Despesas i p)])"
  using try_last [of env i p j acc] assms by (subst despesas_loop.simps) simp

lemma loop_fail:
  assumes "env (Despesas i p) = Inl ex"
  shows "despesas_loop env i p acc tr = Some (despesas_except i p acc tr ex)"
  using try_fail [of env i p ex acc] assms by (subst despesas_loop.simps) simp

lemma loop_run:
  assumes "\<forall>q. p \<le> q \<and> q < p + n \<longrightarrow> (\<exists>j. env (Despesas i q) = Inr j \<and> more_page j)"
  shows "despesas_loop env i p acc tr =
         despesas_loop env i (p + n) (acc @ concat (map (fetched env i) [p..<p + n]))
           (tr @ map (\<lambda>q. HttpGet (Despesas i q)) [p..<p + n])"
  using assms
proof (induction n arbitrary: p acc tr)
  case 0
  then show ?case by simp
next
  case (Suc n)
  from Suc.prems [rule_format, of p] obtain j where
    j: "env (Despesas i p) = Inr j" "more_page j"
    by auto
  have rest: "\<forall>q. Suc p \<le> q \<and> q < Suc p + n \<longrightarrow> (\<exists>j. env (Despesas i q) = Inr j \<and> more_page j)"
    using Suc.prems by simp
  have f: "fetched env i p = page_records j"
    using j by (simp add: fetched_def)
  have up: "[p..<p + Suc n] = p # [Suc p..<Suc p + n]"
    by (simp add: upt_rec)
  show ?case
    using loop_more [of env i p j acc tr] j
      Suc.IH [OF rest, of "acc @ page_records j" "tr @ [HttpGet (Despesas i p)]"]
    by (simp add: f upt_conv_Cons del: upt_Suc)
qed

subsection \<open>The examples\<close>

lemma more_page_exemplo:
  "0 < n \<Longrightarrow> ''next'' \<in> set rels \<Longrightarrow> more_page (pagina_exemplo n rels)"
  by (auto simp: more_page_def pagina_exemplo_def page_dados_def page_links_def
      list_all_iff list_ex_iff link_ok_def is_next_def link_exemplo_def)

lemma last_page_exemplo:
  "''next'' \<notin> set rels \<Longrightarrow> last_page (pagina_exemplo n rels)"
  by (auto simp: last_page_def pagina_exemplo_def page_dados_def page_links_def
      list_all_iff list_ex_iff link_ok_def is_next_def link_exemplo_def)

lemma page_records_exemplo:
  "page_records (pagina_exemplo n rels) = replicate n despesa_exemplo"
  by (simp add: page_records_def pagina_exemplo_def page_dados_def)

lemma upt_1_3: "[1..<Suc 2] = [1, 2]"
  by (simp add: upt_rec)



lemma str_nat_1: "str_nat 1 = ''1''"
  by code_simp

lemma str_nat_2: "str_nat (Suc (Suc 0)) = ''2''"
  by code_simp

lemma str_nat_3: "str_nat 3 = ''3''"
  by code_simp

subsection \<open>Claims about complete and partial fetches\<close>

text \<open>
  C1. Let page \<open>k\<close> be the first page that has an empty data array or carries no link
  with relation next: every page before it has records and a next link, and the link
  entries are well formed. Then the fetcher returns, having sent exactly the \<open>k\<close>
  requests for pages 1 to \<open>k\<close>, in this order, and nothing else; it returns the records
  of pages 1 to \<open>k\<close> concatenated in upstream order, so the length of the result is the
  sum of the numbers of records of the pages. In scenario B this is 137 records from 2
  requests.
\<close>

theorem fetcher_postcondition:
  assumes "1 \<le> k"
    and "\<forall>p. 1 \<le> p \<and> p < k \<longrightarrow> (\<exists>j. env (Despesas i p) = Inr j \<and> more_page j)"
    and "\<exists>j. env (Despesas i k) = Inr j \<and> last_page j"
  shows "buscar_todas_despesas env i =
           Some (Inr (concat (map (fetched env i) [1..<Suc k])),
                 map (\<lambda>p. HttpGet (Despesas i p)) [1..<Suc k])
         \<and> length (concat (map (fetched env i) [1..<Suc k])) =
           (\<Sum>p\<leftarrow>[1..<Suc k]. length (fetched env i p))"
proof
  from assms(3) obtain j where j: "env (Despesas i k) = Inr j" "last_page j"
    by blast
  from assms(1) obtain n where k: "k = 1 + n"
    using le_Suc_ex by blast
  have more: "\<forall>q. 1 \<le> q \<and> q < 1 + n \<longrightarrow> (\<exists>j. env (Despesas i q) = Inr j \<and> more_page j)"
    using assms(2) k by simp
  have "buscar_todas_despesas env i =
        despesas_loop env i (1 + n) ([] @ concat (map (fetched env i) [1..<1 + n]))
          ([] @ map (\<lambda>q. HttpGet (Despesas i q)) [1..<1 + n])"
    unfolding buscar_todas_despesas_def by (rule loop_run [OF more])
  also have "\<dots> = Some (Inr (concat (map (fetched env i) [1..<1 + n]) @ page_records j),
                      map (\<lambda>q. HttpGet (Despesas i q)) [1..<1 + n] @ [HttpGet (Despesas i k)])"
    using loop_last [of env i k j] j k by simp
  also have "page_records j = fetched env i k"
    using j by (simp add: fetched_def)
  finally show "buscar_todas_despesas env i =
           Some (Inr (concat (map (fetched env i) [1..<Suc k])),
                 map (\<lambda>p. HttpGet (Despesas i p)) [1..<Suc k])"
    using k by simp
next
  show "length (concat (map (fetched env i) [1..<Suc k])) =
        (\<Sum>p\<leftarrow>[1..<Suc k]. length (fetched env i p))"
    by (simp add: length_concat comp_def)
qed

theorem fetcher_postcondition_witness:
  "buscar_todas_despesas scenario_B (PNum 204379) =
     Some (Inr (replicate 100 despesa_exemplo @ replicate 37 despesa_exemplo),
           [HttpGet (Despesas (PNum 204379) 1), HttpGet (Despesas (PNum 204379) 2)])
   \<and> length (replicate 100 despesa_exemplo @ replicate 37 despesa_exemplo) = 137"
proof -
  have h1: "(1::nat) \<le> 2" by simp
  have h2: "\<forall>p. 1 \<le> p \<and> p < 2 \<longrightarrow>
              (\<exists>j. scenario_B (Despesas (PNum 204379) p) = Inr j \<and> more_page j)"
  proof (intro allI impI)
    fix p :: nat
    assume "1 \<le> p \<and> p < 2"
    then have "p = 1" by arith
    then show "\<exists>j. scenario_B (Despesas (PNum 204379) p) = Inr j \<and> more_page j"
      by (simp add: scenario_B_def more_page_exemplo)
  qed
  have h3: "\<exists>j. scenario_B (Despesas (PNum 204379) 2) = Inr j \<and> last_page j"
    by (simp add: scenario_B_def last_page_exemplo)
  have f1: "fetched scenario_B (PNum 204379) 1 = replicate 100 despesa_exemplo"
    by (simp add: fetched_def scenario_B_def page_records_exemplo)
  have f2: "fetched scenario_B (PNum 204379) 2 = replicate 37 despesa_exemplo"
    by (simp add: fetched_def scenario_B_def page_records_exemplo)
  from fetcher_postcondition [of 2 scenario_B "PNum 204379", OF h1 h2 h3] show ?thesis
    unfolding upt_1_3 by (simp add: f1 f2 del: One_nat_def)
qed



text \<open>
  C9. An upstream with no records and an upstream whose first request fails give
  different outcomes of the fetcher: both return the empty list, and only the second
  shows an error message (for page 1). What is returned together with what is shown
  tells the two apart; the returned list alone does not.
\<close>

theorem fetcher_empty_vs_failed:
  assumes "env1 (Despesas i 1) = Inr j" and "page_dados j = Some []"
    and "env2 (Despesas i 1) = Inl (RequestException e)"
  shows "buscar_todas_despesas env1 i = Some (Inr [], [HttpGet (Despesas i 1)])
       \<and> buscar_todas_despesas env2 i =
           Some (Inr [], [HttpGet (Despesas i 1), StError (erro_despesas 1 e)])
       \<and> buscar_todas_despesas env1 i \<noteq> buscar_todas_despesas env2 i"
proof -
  have l: "last_page j"
    using assms(2) by (simp add: last_page_def)
  have 1: "buscar_todas_despesas env1 i = Some (Inr [], [HttpGet (Despesas i 1)])"
    using loop_last [of env1 i 1 j "[]" "[]"] assms(1,2) l
    by (simp add: buscar_todas_despesas_def page_records_def)
  have 2: "buscar_todas_despesas env2 i =
           Some (Inr [], [HttpGet (Despesas i 1), StError (erro_despesas 1 e)])"
    using loop_fail [of env2 i 1 "RequestException e" "[]" "[]"] assms(3)
    by (simp add: buscar_todas_despesas_def despesas_except_def)
  from 1 2 show ?thesis by simp
qed

theorem fetcher_empty_vs_failed_witness:
  "buscar_todas_despesas busca_vazia (PNum 204379) =
     Some (Inr [], [HttpGet (Despesas (PNum 204379) 1)])
   \<and> buscar_todas_despesas busca_falha (PNum 204379) =
     Some (Inr [], [HttpGet (Despesas (PNum 204379) 1),
       StError (''Erro ao buscar despesas (p'' @ [CHR 0xE1] @ ''gina 1): Read timed out'')])
   \<and> buscar_todas_despesas busca_vazia (PNum 204379)
       \<noteq> buscar_todas_despesas busca_falha (PNum 204379)"
proof -
  have h1: "busca_vazia (Despesas (PNum 204379) 1) =
            Inr (PDict [(''dados'', PList []), (''links'', PList [link_exemplo ''self''])])"
    by (simp add: busca_vazia_def)
  have h2: "page_dados (PDict [(''dados'', PList []), (''links'', PList [link_exemplo ''self''])])
            = Some []"
    by (simp add: page_dados_def)
  have h3: "busca_falha (Despesas (PNum 204379) 1) = Inl (RequestException ''Read timed out'')"
    by (simp add: busca_falha_def)
  from fetcher_empty_vs_failed [of busca_vazia "PNum 204379" _ busca_falha, OF h1 h2 h3]
  show ?thesis
    by (simp add: erro_despesas_def str_nat_1 del: One_nat_def)
qed

subsection \<open>Which exceptions the handler catches\<close>

lemma links_dict_defect:
  "list_ex link_defect ls \<Longrightarrow> \<exists>ex. links_dict ls acc = Inl ex \<and> escapes ex"
proof (induction ls arbitrary: acc)
  case Nil
  then show ?case by simp
next
  case (Cons l ls)
  show ?case
  proof (cases "\<exists>k v. getitem l ''rel'' = Inr k \<and> getitem l ''href'' = Inr v \<and> hashable k")
    case True
    then obtain k v where kv: "getitem l ''rel'' = Inr k" "getitem l ''href'' = Inr v" "hashable k"
      by blast
    then have "\<not> link_defect l"
      by (cases l) (auto simp: link_defect_def split: option.splits)
    with Cons.prems have "list_ex link_defect ls" by simp
    from Cons.IH [OF this, of "acc @ [(k, v)]"] kv show ?thesis by simp
  next
    case False
    then show ?thesis
      by (cases l) (auto simp: escapes_def split: option.splits sum.splits)
  qed
qed

lemma try_defect:
  assumes "env (Despesas i p) = Inr j" "page_dados j = Some rs" "rs \<noteq> []" "links_defect j"
  shows "\<exists>ex. despesas_try env i p acc = (acc @ rs, Inl ex) \<and> escapes ex"
proof -
  from assms(2) obtain kvs where j: "j = PDict kvs" "map_of kvs ''dados'' = Some (PList rs)"
    by (auto simp: page_dados_def split: pyval.splits option.splits)
  show ?thesis
  proof (cases "map_of kvs ''links''")
    case None
    with assms(1,3) j show ?thesis
      by (simp add: despesas_try_def escapes_def)
  next
    case (Some l)
    with assms(4) j obtain ls where ls: "l = PList ls" "list_ex link_defect ls"
      by (auto simp: links_defect_def split: pyval.splits)
    from links_dict_defect [OF ls(2), of "[]"] obtain ex where
      "links_dict ls [] = Inl ex" "escapes ex" by blast
    with assms(1,3) j Some ls show ?thesis
      by (simp add: despesas_try_def)
  qed
qed

lemma except_escapes:
  "escapes ex \<Longrightarrow> despesas_except i p acc tr ex = (Inl ex, tr @ [HttpGet (Despesas i p)])"
  by (auto simp: escapes_def despesas_except_def)

lemma fetcher_defect_escapes:
  assumes "1 \<le> n"
    and "\<forall>p. 1 \<le> p \<and> p < n \<longrightarrow> (\<exists>j. env (Despesas i p) = Inr j \<and> more_page j)"
    and "env (Despesas i n) = Inr j" and "page_dados j = Some rs" and "rs \<noteq> []"
    and "links_defect j"
  shows "\<exists>ex. buscar_todas_despesas env i =
                Some (Inl ex, map (\<lambda>p. HttpGet (Despesas i p)) [1..<Suc n])
              \<and> escapes ex"
proof -
  from assms(1) obtain m where n: "n = 1 + m"
    using le_Suc_ex by blast
  have more: "\<forall>q. 1 \<le> q \<and> q < 1 + m \<longrightarrow> (\<exists>j. env (Despesas i q) = Inr j \<and> more_page j)"
    using assms(2) n by simp
  define acc where "acc = [] @ concat (map (fetched env i) [1..<1 + m])"
  define tr where "tr = [] @ map (\<lambda>q. HttpGet (Despesas i q)) [1..<1 + m]"
  have run: "buscar_todas_despesas env i = despesas_loop env i n acc tr"
    unfolding buscar_todas_despesas_def acc_def tr_def n by (rule loop_run [OF more])
  from try_defect [of env i n j rs acc] assms(3,4,5,6) obtain ex where
    ex: "despesas_try env i n acc = (acc @ rs, Inl ex)" "escapes ex"
    by blast
  have "despesas_loop env i n acc tr = Some (despesas_except i n (acc @ rs) tr ex)"
    using ex(1) by (subst despesas_loop.simps) simp
  with run ex(2) have "buscar_todas_despesas env i = Some (Inl ex, tr @ [HttpGet (Despesas i n)])"
    by (simp add: except_escapes)
  moreover have "tr @ [HttpGet (Despesas i n)] = map (\<lambda>p. HttpGet (Despesas i p)) [1..<Suc n]"
    by (simp add: tr_def n)
  ultimately show ?thesis using ex(2) by auto
qed

lemma getitem_not_request: "getitem x k \<noteq> Inl (RequestException e)"
  by (cases x) (auto split: option.splits)

lemma py_iter_not_request: "py_iter x \<noteq> Inl (RequestException e)"
  by (cases x) auto

lemma links_dict_not_request: "links_dict ls acc \<noteq> Inl (RequestException e)"
  by (induction ls arbitrary: acc) (auto split: sum.splits simp: getitem_not_request)

lemma try_request_only:
  assumes "despesas_try env i p acc = (acc', Inl (RequestException e))"
  shows "env (Despesas i p) = Inl (RequestException e) \<and> acc' = acc"
  using assms getitem_not_request py_iter_not_request links_dict_not_request
  by (auto simp: despesas_try_def split: sum.splits if_splits)

lemma loop_error_origin:
  assumes "despesas_loop env i p acc tr = Some y"
  shows "StError m \<in> set (snd y) \<longrightarrow>
         StError m \<in> set tr
         \<or> (\<exists>q e acc. env (Despesas i q) = Inl (RequestException e) \<and> m = erro_despesas q e
              \<and> fst y = Inr acc)"
proof (rule despesas_loop.raw_induct [where P = "\<lambda>env i p acc tr y.
         StError m \<in> set (snd y) \<longrightarrow>
         StError m \<in> set tr
         \<or> (\<exists>q e acc. env (Despesas i q) = Inl (RequestException e) \<and> m = erro_despesas q e
              \<and> fst y = Inr acc)",
       OF _ assms])
  fix loop env i p acc tr y
  assume IH: "\<And>env i p acc tr y. loop env i p acc tr = Some y \<Longrightarrow>
         StError m \<in> set (snd y) \<longrightarrow>
         StError m \<in> set tr
         \<or> (\<exists>q e acc. env (Despesas i q) = Inl (RequestException e) \<and> m = erro_despesas q e
              \<and> fst y = Inr acc)"
    and step: "(case despesas_try env i p acc of
      (todas, Inl ex) \<Rightarrow> Some (despesas_except i p todas tr ex)
      | (todas, Inr again) \<Rightarrow>
          if again then loop env i (p + 1) todas (tr @ [HttpGet (Despesas i p)])
          else Some (Inr todas, tr @ [HttpGet (Despesas i p)])) = Some y"
  obtain acc' res where t: "despesas_try env i p acc = (acc', res)"
    by (cases "despesas_try env i p acc")
  show "StError m \<in> set (snd y) \<longrightarrow>
         StError m \<in> set tr
         \<or> (\<exists>q e acc. env (Despesas i q) = Inl (RequestException e) \<and> m = erro_despesas q e
              \<and> fst y = Inr acc)"
  proof (cases res)
    case (Inl ex)
    show ?thesis
    proof (cases ex)
      case (RequestException e)
      with t Inl have "env (Despesas i p) = Inl (RequestException e)"
        using try_request_only by blast
      with step t Inl RequestException show ?thesis
        by (auto simp: despesas_except_def)
    qed (use step t Inl in \<open>auto simp: despesas_except_def\<close>)
  next
    case (Inr again)
    show ?thesis
    proof (cases again)
      case True
      with step t Inr have "loop env i (p + 1) acc' (tr @ [HttpGet (Despesas i p)]) = Some y"
        by simp
      from IH [OF this] show ?thesis by auto
    next
      case False
      with step t Inr show ?thesis by auto
    qed
  qed
qed

lemma fetcher_error_origin:
  assumes "buscar_todas_despesas env i = Some (r, tr)" and "StError m \<in> set tr"
  shows "\<exists>q e acc. env (Despesas i q) = Inl (RequestException e) \<and> m = erro_despesas q e
           \<and> r = Inr acc"
  using loop_error_origin [of env i 1 "[]" "[]" "(r, tr)" m] assms
  by (simp add: buscar_todas_despesas_def)

lemma scenario_D_run:
  "buscar_todas_despesas scenario_D (PNum 204379) =
     Some (Inr (replicate 4 despesa_exemplo),
           [HttpGet (Despesas (PNum 204379) 1), HttpGet (Despesas (PNum 204379) 2),
            HttpGet (Despesas (PNum 204379) 3),
            StError (''Erro ao buscar despesas (p'' @ [CHR 0xE1] @ ''gina 3): Read timed out'')])"
proof -
  have m: "more_page (pagina_exemplo 2 [''self'', ''next''])"
    by (simp add: more_page_exemplo)
  have p1: "scenario_D (Despesas (PNum 204379) 1) = Inr (pagina_exemplo 2 [''self'', ''next''])"
    by (simp add: scenario_D_def)
  have p2: "scenario_D (Despesas (PNum 204379) 2) = Inr (pagina_exemplo 2 [''self'', ''next''])"
    by (simp add: scenario_D_def)
  have p3: "scenario_D (Despesas (PNum 204379) 3) = Inl (RequestException ''Read timed out'')"
    by (simp add: scenario_D_def)
  have s1: "despesas_loop scenario_D (PNum 204379) 1 [] [] =
            despesas_loop scenario_D (PNum 204379) 2 (replicate 2 despesa_exemplo)
              [HttpGet (Despesas (PNum 204379) 1)]"
    using loop_more [of scenario_D "PNum 204379" 1, OF p1 m, of "[]" "[]"]
    by (simp add: page_records_exemplo del: One_nat_def)
  have s2: "despesas_loop scenario_D (PNum 204379) 2 (replicate 2 despesa_exemplo)
              [HttpGet (Despesas (PNum 204379) 1)] =
            despesas_loop scenario_D (PNum 204379) 3 (replicate 4 despesa_exemplo)
              [HttpGet (Despesas (PNum 204379) 1), HttpGet (Despesas (PNum 204379) 2)]"
    using loop_more [of scenario_D "PNum 204379" 2, OF p2 m, of "replicate 2 despesa_exemplo"
        "[HttpGet (Despesas (PNum 204379) 1)]"]
    by (simp add: page_records_exemplo replicate_add [symmetric] del: One_nat_def)
  have s3: "despesas_loop scenario_D (PNum 204379) 3 (replicate 4 despesa_exemplo)
              [HttpGet (Despesas (PNum 204379) 1), HttpGet (Despesas (PNum 204379) 2)] =
            Some (Inr (replicate 4 despesa_exemplo),
              [HttpGet (Despesas (PNum 204379) 1), HttpGet (Despesas (PNum 204379) 2),
               HttpGet (Despesas (PNum 204379) 3),
               StError (''Erro ao buscar despesas (p'' @ [CHR 0xE1] @
                        ''gina 3): Read timed out'')])"
    using loop_fail [of scenario_D "PNum 204379" 3, OF p3, of "replicate 4 despesa_exemplo"
        "[HttpGet (Despesas (PNum 204379) 1), HttpGet (Despesas (PNum 204379) 2)]"]
    by (simp add: despesas_except_def erro_despesas_def str_nat_3 del: One_nat_def)
  show ?thesis
    unfolding buscar_todas_despesas_def s1 s2 s3 ..
qed

lemma sem_links_run:
  "buscar_todas_despesas sem_links (PNum 204379) =
     Some (Inl (KeyError (PStr ''links'')),
           [HttpGet (Despesas (PNum 204379) 1), HttpGet (Despesas (PNum 204379) 2)])"
proof -
  have m: "more_page (pagina_exemplo 2 [''self'', ''next''])"
    by (simp add: more_page_exemplo)
  have p1: "sem_links (Despesas (PNum 204379) 1) = Inr (pagina_exemplo 2 [''self'', ''next''])"
    by (simp add: sem_links_def)
  have s1: "despesas_loop sem_links (PNum 204379) 1 [] [] =
            despesas_loop sem_links (PNum 204379) 2 (replicate 2 despesa_exemplo)
              [HttpGet (Despesas (PNum 204379) 1)]"
    using loop_more [of sem_links "PNum 204379" 1, OF p1 m, of "[]" "[]"]
    by (simp add: page_records_exemplo del: One_nat_def)
  have p2: "despesas_try sem_links (PNum 204379) 2 (replicate 2 despesa_exemplo) =
            (replicate 2 despesa_exemplo @ [despesa_exemplo], Inl (KeyError (PStr ''links'')))"
    by (simp add: despesas_try_def sem_links_def)
  have s2: "despesas_loop sem_links (PNum 204379) 2 (replicate 2 despesa_exemplo)
              [HttpGet (Despesas (PNum 204379) 1)] =
            Some (Inl (KeyError (PStr ''links'')),
              [HttpGet (Despesas (PNum 204379) 1), HttpGet (Despesas (PNum 204379) 2)])"
    by (subst despesas_loop.simps) (simp add: p2 despesas_except_def)
  show ?thesis
    unfolding buscar_todas_despesas_def s1 s2 ..
qed

lemma sem_links_pages:
  "1 \<le> (2::nat)
   \<and> (\<forall>p. 1 \<le> p \<and> p < 2 \<longrightarrow>
          (\<exists>j. sem_links (Despesas (PNum 204379) p) = Inr j \<and> more_page j))
   \<and> sem_links (Despesas (PNum 204379) 2) = Inr (PDict [(''dados'', PList [despesa_exemplo])])
   \<and> page_dados (PDict [(''dados'', PList [despesa_exemplo])]) = Some [despesa_exemplo]
   \<and> [despesa_exemplo] \<noteq> []
   \<and> links_defect (PDict [(''dados'', PList [despesa_exemplo])])"
proof -
  have "\<exists>j. sem_links (Despesas (PNum 204379) p) = Inr j \<and> more_page j"
    if "1 \<le> p \<and> p < 2" for p :: nat
  proof -
    from that have "p = 1" by arith
    then show ?thesis by (simp add: sem_links_def more_page_exemplo)
  qed
  then show ?thesis
    by (simp add: sem_links_def page_dados_def links_defect_def)
qed

text \<open>
  C10. The handler of the fetcher acts on a \<^verbatim>\<open>RequestException\<close> only: whenever a
  call shows an error message, some page request raised a \<^verbatim>\<open>RequestException\<close>,
  the message is the one for that page and cause, and the call returned a list. And
  when a page that is reached has records but its response has no \<^verbatim>\<open>links\<close> key,
  or a link entry without \<^verbatim>\<open>rel\<close> or \<^verbatim>\<open>href\<close>, the exception raised
  (\<^verbatim>\<open>KeyError\<close> or \<^verbatim>\<open>TypeError\<close>) is not caught: it leaves the function, no
  list is returned and no message is shown.
\<close>

theorem fetcher_handler_scope:
  "(\<forall>r tr m. buscar_todas_despesas env i = Some (r, tr) \<and> StError m \<in> set tr \<longrightarrow>
       (\<exists>q e acc. env (Despesas i q) = Inl (RequestException e) \<and> m = erro_despesas q e
          \<and> r = Inr acc))
   \<and> (\<forall>n j rs.
         1 \<le> n
         \<and> (\<forall>p. 1 \<le> p \<and> p < n \<longrightarrow> (\<exists>j. env (Despesas i p) = Inr j \<and> more_page j))
         \<and> env (Despesas i n) = Inr j \<and> page_dados j = Some rs \<and> rs \<noteq> []
         \<and> links_defect j \<longrightarrow>
         (\<exists>ex. buscar_todas_despesas env i =
                 Some (Inl ex, map (\<lambda>p. HttpGet (Despesas i p)) [1..<Suc n])
               \<and> escapes ex))"
proof (intro conjI allI impI)
  fix r tr m
  assume "buscar_todas_despesas env i = Some (r, tr) \<and> StError m \<in> set tr"
  then show "\<exists>q e acc. env (Despesas i q) = Inl (RequestException e) \<and> m = erro_despesas q e
               \<and> r = Inr acc"
    using fetcher_error_origin [of env i r tr m] by blast
next
  fix n j rs
  assume h: "1 \<le> n
         \<and> (\<forall>p. 1 \<le> p \<and> p < n \<longrightarrow> (\<exists>j. env (Despesas i p) = Inr j \<and> more_page j))
         \<and> env (Despesas i n) = Inr j \<and> page_dados j = Some rs \<and> rs \<noteq> []
         \<and> links_defect j"
  show "\<exists>ex. buscar_todas_despesas env i =
                 Some (Inl ex, map (\<lambda>p. HttpGet (Despesas i p)) [1..<Suc n])
               \<and> escapes ex"
    using fetcher_defect_escapes [of n env i j rs] h by blast
qed

theorem fetcher_handler_scope_witness:
  "(\<exists>q e acc. scenario_D (Despesas (PNum 204379) q) = Inl (RequestException e)
       \<and> ''Erro ao buscar despesas (p'' @ [CHR 0xE1] @ ''gina 3): Read timed out''
           = erro_despesas q e
       \<and> (Inr (replicate 4 despesa_exemplo) :: pyexc + pyval list) = Inr acc)
   \<and> buscar_todas_despesas sem_links (PNum 204379) =
       Some (Inl (KeyError (PStr ''links'')),
             [HttpGet (Despesas (PNum 204379) 1), HttpGet (Despesas (PNum 204379) 2)])
   \<and> escapes (KeyError (PStr ''links''))"
proof -
  note scope1 = fetcher_handler_scope [of scenario_D "PNum 204379", THEN conjunct1, rule_format]
  note scope2 = fetcher_handler_scope [of sem_links "PNum 204379", THEN conjunct2, rule_format]
  have a: "\<exists>q e acc. scenario_D (Despesas (PNum 204379) q) = Inl (RequestException e)
       \<and> ''Erro ao buscar despesas (p'' @ [CHR 0xE1] @ ''gina 3): Read timed out''
           = erro_despesas q e
       \<and> (Inr (replicate 4 despesa_exemplo) :: pyexc + pyval list) = Inr acc"
    using scope1 [of "Inr (replicate 4 despesa_exemplo)"
        "[HttpGet (Despesas (PNum 204379) 1), HttpGet (Despesas (PNum 204379) 2),
          HttpGet (Despesas (PNum 204379) 3),
          StError (''Erro ao buscar despesas (p'' @ [CHR 0xE1] @ ''gina 3): Read timed out'')]"
        "''Erro ao buscar despesas (p'' @ [CHR 0xE1] @ ''gina 3): Read timed out''"]
      scenario_D_run
    by simp
  from scope2 [OF sem_links_pages] obtain ex where
    ex: "buscar_todas_despesas sem_links (PNum 204379) =
           Some (Inl ex, map (\<lambda>p. HttpGet (Despesas (PNum 204379) p)) [1..<Suc 2])" "escapes ex"
    by blast
  from ex(1) have "ex = KeyError (PStr ''links'')"
    by (simp add: sem_links_run)
  with ex a show ?thesis
    by (simp add: sem_links_run)
qed

section \<open>Properties of the resolver\<close>

text \<open>
  C4. When the search response has a result list: if the list is empty the resolver
  returns \<^verbatim>\<open>None\<close>, without an exception and without a message; if its first
  element is a dictionary with the four fields, the resolver returns the dictionary
  built from that element's id, name, party and state, whatever follows in the list.
  In scenario A the single match gives id 204379, the name, PT and RS.
\<close>

theorem resolver_postcondition:
  assumes "env (Deputados nome) = Inr j" and "page_dados j = Some results"
  shows "(results = [] \<longrightarrow>
            buscar_deputado_id env nome = (Inr PNone, [HttpGet (Deputados nome)]))
       \<and> (\<forall>first rest fields i n p u.
            results = first # rest \<and> first = PDict fields
            \<and> map_of fields ''id'' = Some i \<and> map_of fields ''nome'' = Some n
            \<and> map_of fields ''siglaPartido'' = Some p \<and> map_of fields ''siglaUf'' = Some u
            \<longrightarrow> buscar_deputado_id env nome =
                  (Inr (PDict [(''id'', i), (''nome'', n), (''partido'', p), (''uf'', u)]),
                   [HttpGet (Deputados nome)]))"
proof -
  from assms(2) obtain kvs where j: "j = PDict kvs" "map_of kvs ''dados'' = Some (PList results)"
    by (auto simp: page_dados_def split: pyval.splits option.splits)
  with assms(1) show ?thesis
    by (auto simp: buscar_deputado_id_def buscar_deputado_try_def primeiro_resultado_info_def)
qed

theorem resolver_postcondition_witness:
  "buscar_deputado_id busca_maria maria =
     (Inr (PDict [(''id'', PNum 204379), (''nome'', PStr maria), (''partido'', PStr ''PT''),
                  (''uf'', PStr ''RS'')]),
      [HttpGet (Deputados maria)])
   \<and> buscar_deputado_id busca_vazia maria = (Inr PNone, [HttpGet (Deputados maria)])"
proof -
  have a1: "busca_maria (Deputados maria) = Inr scenario_A"
    by (simp add: busca_maria_def)
  have a2: "page_dados scenario_A =
      Some [PDict [(''id'', PNum 204379), (''uri'', PStr ''https://example.org''),
                   (''nome'', PStr maria), (''siglaPartido'', PStr ''PT''),
                   (''siglaUf'', PStr ''RS'')]]"
    by (simp add: page_dados_def scenario_A_def)
  have b1: "busca_vazia (Deputados maria) =
      Inr (PDict [(''dados'', PList []), (''links'', PList [link_exemplo ''self''])])"
    by (simp add: busca_vazia_def)
  have b2: "page_dados (PDict [(''dados'', PList []), (''links'', PList [link_exemplo ''self''])])
            = Some []"
    by (simp add: page_dados_def)
  from resolver_postcondition [of busca_maria maria, OF a1 a2]
    resolver_postcondition [of busca_vazia maria, OF b1 b2]
  show ?thesis by simp
qed

text \<open>
  C5, as the claim states it: a transport failure of the search makes the resolver fail
  with the error, an outcome other than the \<^verbatim>\<open>None\<close> of an empty result list. The
  code does otherwise: when the request raises, the resolver returns \<^verbatim>\<open>None\<close>, the
  value it returns for an empty result list.
\<close>

theorem resolver_failure_counterexample:
  "fst (buscar_deputado_id busca_falha maria) \<noteq> Inl (RequestException ''Read timed out'')
   \<and> fst (buscar_deputado_id busca_falha maria) = Inr PNone
   \<and> fst (buscar_deputado_id busca_vazia maria) = Inr PNone"
  by (simp add: buscar_deputado_id_def buscar_deputado_try_def busca_falha_def busca_vazia_def)

text \<open>
  C5, amended. When the search request raises a \<^verbatim>\<open>RequestException\<close>, the resolver
  does not fail: it shows the message \<^verbatim>\<open>Erro ao buscar deputado:\<close> followed by the
  cause and returns \<^verbatim>\<open>None\<close>, which is also what it returns for an empty result
  list; the two outcomes differ by the message shown and by nothing else.
\<close>

theorem resolver_failure_reported:
  assumes "env (Deputados nome) = Inl (RequestException e)"
    and "env' (Deputados nome) = Inr j" and "page_dados j = Some []"
  shows "buscar_deputado_id env nome =
           (Inr PNone, [HttpGet (Deputados nome), StError (''Erro ao buscar deputado: '' @ e)])
       \<and> buscar_deputado_id env' nome = (Inr PNone, [HttpGet (Deputados nome)])
       \<and> buscar_deputado_id env nome \<noteq> buscar_deputado_id env' nome"
proof -
  from assms(3) obtain kvs where j: "j = PDict kvs" "map_of kvs ''dados'' = Some (PList [])"
    by (auto simp: page_dados_def split: pyval.splits option.splits)
  with assms(1,2) show ?thesis
    by (simp add: buscar_deputado_id_def buscar_deputado_try_def)
qed

theorem resolver_failure_reported_witness:
  "buscar_deputado_id busca_falha maria =
     (Inr PNone, [HttpGet (Deputados maria), StError ''Erro ao buscar deputado: Read timed out''])
   \<and> buscar_deputado_id busca_vazia maria = (Inr PNone, [HttpGet (Deputados maria)])
   \<and> buscar_deputado_id busca_falha maria \<noteq> buscar_deputado_id busca_vazia maria"
proof -
  have h1: "busca_falha (Deputados maria) = Inl (RequestException ''Read timed out'')"
    by (simp add: busca_falha_def)
  have h2: "busca_vazia (Deputados maria) =
      Inr (PDict [(''dados'', PList []), (''links'', PList [link_exemplo ''self''])])"
    by (simp add: busca_vazia_def)
  have h3: "page_dados (PDict [(''dados'', PList []), (''links'', PList [link_exemplo ''self''])])
            = Some []"
    by (simp add: page_dados_def)
  from resolver_failure_reported [of busca_falha maria _ busca_vazia, OF h1 h2 h3]
  show ?thesis by simp
qed

section \<open>Properties of the aggregation\<close>

subsection \<open>Conversion, grouping and sorting\<close>


lemma to_numeric_some:
  "\<not> list_all (\<lambda>a. coerce parse a \<noteq> None) as \<Longrightarrow> to_numeric parse as = Inl ValueError"
  by (induction as) (auto split: option.splits sum.splits)


lemma agrupadas_fail:
  assumes "\<not> list_all (coercible parse) df"
  shows "despesas_agrupadas parse df = Inl ValueError"
proof -
  have "\<not> list_all (\<lambda>a. coerce parse a \<noteq> None) (map valorLiquido df)"
    using assms by (simp add: list_all_iff coercible_def)
  from to_numeric_some [OF this] show ?thesis
    by (simp add: despesas_agrupadas_def)
qed












subsection \<open>Scenario C\<close>

lemma parse_150: "parse_decimal ''150.00'' = Some 150"
  by (simp add: parse_decimal_def digit_of_def)



lemma parse_abc: "parse_decimal ''abc'' = None"
  by (simp add: parse_decimal_def digit_of_def)




subsection \<open>Claims about the totals\<close>







section \<open>Properties of the script\<close>

lemma maria_not_empty: "maria \<noteq> []"
  by (simp add: maria_def)

lemma valor_invalido_deputado:
  "buscar_deputado_id valor_invalido maria =
     (Inr (PDict [(''id'', PNum 204379), (''nome'', PStr maria), (''partido'', PStr ''PT''),
                  (''uf'', PStr ''RS'')]),
      [HttpGet (Deputados maria)])"
  by (simp add: buscar_deputado_id_def buscar_deputado_try_def valor_invalido_def scenario_A_def
      primeiro_resultado_info_def)

lemma valor_invalido_despesas:
  "buscar_todas_despesas valor_invalido (PNum 204379) =
     Some (Inr [PDict [(''tipoDespesa'', PStr combustivel), (''valorLiquido'', PStr ''150.00'')],
                PDict [(''tipoDespesa'', PStr combustivel), (''valorLiquido'', PStr ''abc'')]],
           [HttpGet (Despesas (PNum 204379) 1)])"
  unfolding buscar_todas_despesas_def
  by (subst despesas_loop.simps)
     (simp add: despesas_try_def valor_invalido_def link_exemplo_def)

lemma valor_invalido_frame:
  "data_frame [PDict [(''tipoDespesa'', PStr combustivel), (''valorLiquido'', PStr ''150.00'')],
               PDict [(''tipoDespesa'', PStr combustivel), (''valorLiquido'', PStr ''abc'')]] =
     Some [\<lparr>tipoDespesa = combustivel, valorLiquido = Text ''150.00''\<rparr>,
           \<lparr>tipoDespesa = combustivel, valorLiquido = Text ''abc''\<rparr>]"
  by (simp add: despesa_of_def)

text \<open>
  C7, as the claim states it: an amount that is not a number aborts the aggregation,
  and the failure is caught and turned into a message for the user. In the code the
  first half holds and the second does not: the run below ends in the
  \<^verbatim>\<open>ValueError\<close>, uncaught, after the message with the number of records.
\<close>

theorem aggregator_failure_counterexample:
  "app parse_decimal valor_invalido maria True =
     Some (Uncaught ValueError,
           [HttpGet (Deputados maria), StSuccess (PStr maria) (PStr ''PT'') (PStr ''RS''),
            HttpGet (Despesas (PNum 204379) 1),
            StInfo ''Total de 2 registros de despesa encontrados.''])"
  by (simp add: app_def maria_not_empty valor_invalido_deputado encontrado_def
      valor_invalido_despesas despesa_of_def processar_def despesas_agrupadas_def
      coerce_def parse_150 parse_abc total_msg_def str_nat_2)

text \<open>
  C7, amended. When an amount of a fetched record cannot be converted, the aggregation
  aborts as a whole with a \<^verbatim>\<open>ValueError\<close>: no row of totals is produced and
  neither the chart nor the table is drawn. Nothing catches the exception: the run of
  the script ends with it, after the messages shown before the aggregation.
\<close>

theorem aggregator_failure_uncaught:
  assumes "nome \<noteq> []"
    and "buscar_deputado_id env nome =
           (Inr (PDict [(''id'', i), (''nome'', n), (''partido'', p), (''uf'', u)]), tr1)"
    and "buscar_todas_despesas env i = Some (Inr lista, tr2)"
    and "lista \<noteq> []"
    and "data_frame lista = Some df"
    and "\<not> list_all (coercible parse) df"
  shows "despesas_agrupadas parse df = Inl ValueError
       \<and> app parse env nome True =
           Some (Uncaught ValueError,
                 tr1 @ [StSuccess n p u] @ tr2 @ [StInfo (total_msg (length lista))])"
  using assms agrupadas_fail [OF assms(6)]
  by (simp add: app_def encontrado_def processar_def)

theorem aggregator_failure_uncaught_witness:
  "despesas_agrupadas parse_decimal
     [\<lparr>tipoDespesa = combustivel, valorLiquido = Text ''150.00''\<rparr>,
      \<lparr>tipoDespesa = combustivel, valorLiquido = Text ''abc''\<rparr>] = Inl ValueError
   \<and> app parse_decimal valor_invalido maria True =
       Some (Uncaught ValueError,
             [HttpGet (Deputados maria), StSuccess (PStr maria) (PStr ''PT'') (PStr ''RS''),
              HttpGet (Despesas (PNum 204379) 1),
              StInfo ''Total de 2 registros de despesa encontrados.''])"
proof -
  have h4: "[PDict [(''tipoDespesa'', PStr combustivel), (''valorLiquido'', PStr ''150.00'')],
             PDict [(''tipoDespesa'', PStr combustivel), (''valorLiquido'', PStr ''abc'')]] \<noteq> []"
    by simp
  have h6: "\<not> list_all (coercible parse_decimal)
              [\<lparr>tipoDespesa = combustivel, valorLiquido = Text ''150.00''\<rparr>,
               \<lparr>tipoDespesa = combustivel, valorLiquido = Text ''abc''\<rparr>]"
    by (simp add: coercible_def coerce_def parse_abc)
  from aggregator_failure_uncaught [OF maria_not_empty valor_invalido_deputado
      valor_invalido_despesas h4 valor_invalido_frame h6]
  show ?thesis by (simp add: total_msg_def str_nat_2)
qed

end
